theory Spec2Isabelle
  imports Main "HOL-Library.Sublist" "HOL-Library.AList" "HOL-Library.Char_ord"
    "HOL-Library.List_Lexorder"
begin

section \<open>Plate-format collector: a model of \<^verbatim>\<open>scripts/collect_plate_formats.py\<close>\<close>

text \<open>
  The script is a sequential pipeline: for every country of a static table it fetches a
  Wikipedia article, asks a language model to extract fields from the wikitext, parses the
  reply as JSON and rewrites one JSON document on disk.

  Python \<^verbatim>\<open>str\<close> values are modelled as Isabelle strings, one list element per
  code point, for code points below 256; \<^verbatim>\<open>str.upper\<close> is modelled on ASCII
  letters. Everything outside the
  process is explicit: the wiki server, the language model, the clock and the JSON parser
  are fields of an environment record, and every effect of a run is appended to a trace
  of events kept in the world state, beside the content of the output file. Exceptions
  are values of the type \<open>error\<close>. Progress messages on the console are left out;
  the messages of the two aborting paths of \<^verbatim>\<open>main\<close> are kept. The output file,
  when it exists, holds a document of the shape the script writes. Not modelled: a
  connection that fails before any response arrives, a completion without text, and
  file operations that fail.
\<close>

subsection \<open>Constants\<close>

definition REQUEST_DELAY :: int where
  "REQUEST_DELAY = 1"

definition COUNTRIES :: "(string \<times> string \<times> string) list" where
  "COUNTRIES =
    [(''AL'', ''Albania'', ''Albania''),
     (''AD'', ''Andorra'', ''Andorra''),
     (''AM'', ''Armenia'', ''Armenia''),
     (''AT'', ''Austria'', ''Austria''),
     (''BY'', ''Belarus'', ''Belarus''),
     (''BE'', ''Belgium'', ''Belgium''),
     (''BA'', ''Bosnia and Herzegovina'', ''Bosnia_and_Herzegovina''),
     (''BG'', ''Bulgaria'', ''Bulgaria''),
     (''CH'', ''Switzerland'', ''Switzerland''),
     (''CY'', ''Cyprus'', ''Cyprus''),
     (''CZ'', ''Czech Republic'', ''the_Czech_Republic''),
     (''DE'', ''Germany'', ''Germany''),
     (''DK'', ''Denmark'', ''Denmark''),
     (''EE'', ''Estonia'', ''Estonia''),
     (''ES'', ''Spain'', ''Spain''),
     (''FI'', ''Finland'', ''Finland''),
     (''FR'', ''France'', ''France''),
     (''GB'', ''United Kingdom'', ''the_United_Kingdom''),
     (''GE'', ''Georgia'', ''Georgia_(country)''),
     (''GR'', ''Greece'', ''Greece''),
     (''HR'', ''Croatia'', ''Croatia''),
     (''HU'', ''Hungary'', ''Hungary''),
     (''IE'', ''Ireland'', ''the_Republic_of_Ireland''),
     (''IS'', ''Iceland'', ''Iceland''),
     (''IT'', ''Italy'', ''Italy''),
     (''LI'', ''Liechtenstein'', ''Liechtenstein''),
     (''LT'', ''Lithuania'', ''Lithuania''),
     (''LU'', ''Luxembourg'', ''Luxembourg''),
     (''LV'', ''Latvia'', ''Latvia''),
     (''MD'', ''Moldova'', ''Moldova''),
     (''ME'', ''Montenegro'', ''Montenegro''),
     (''MK'', ''North Macedonia'', ''North_Macedonia''),
     (''NL'', ''Netherlands'', ''the_Netherlands''),
     (''NO'', ''Norway'', ''Norway''),
     (''PL'', ''Poland'', ''Poland''),
     (''PT'', ''Portugal'', ''Portugal''),
     (''RO'', ''Romania'', ''Romania''),
     (''RS'', ''Serbia'', ''Serbia''),
     (''SE'', ''Sweden'', ''Sweden''),
     (''SI'', ''Slovenia'', ''Slovenia''),
     (''SK'', ''Slovakia'', ''Slovakia''),
     (''TR'', ''Turkey'', ''Turkey''),
     (''UA'', ''Ukraine'', ''Ukraine''),
     (''XK'', ''Kosovo'', ''Kosovo'')]"

definition prompt_head :: string where
  \<open>prompt_head =
     ''You are given the raw wikitext of a Wikipedia article about vehicle registration plates of ''\<close>

definition prompt_mid :: string where
  \<open>prompt_mid =
     ''.\<newline>'' @
     ''\<newline>'' @
     ''Extract the following information about the CURRENT STANDARD private vehicle registration plate. If a piece of information is not available in the article, use null for that field.\<newline>'' @
     ''\<newline>'' @
     ''Return ONLY a JSON object (no markdown, no explanation) with these fields:\<newline>'' @
     ''\<newline>'' @
     ''{\<newline>'' @
     ''  "format_pattern": "The character pattern using L for letter and N for number, e.g. 'LL-NNNN-LL' or 'LLL NNNN'. Show separators (hyphens, spaces) as they appear on the plate.",\<newline>'' @
     ''  "format_explanation": "Brief explanation of what each part represents (e.g. region code, serial number, etc.)",\<newline>'' @
     ''  "alphabet": "What alphabet/character set is used (e.g. Latin, Cyrillic, Greek) and any notable restrictions on which letters are used",\<newline>'' @
     ''  "forbidden_combinations": "Any letter/number combinations that are banned or restricted, and why. null if none mentioned.",\<newline>'' @
     ''  "vanity_plates": "Whether personalized/vanity plates are available, and any rules or costs. null if not mentioned.",\<newline>'' @
     ''  "year_introduced": "Year the current plate design/system was introduced",\<newline>'' @
     ''  "dimensions": "Physical plate dimensions (e.g. '520 '' @ [CHR 0xD7] @ '' 110 mm')",\<newline>'' @
     ''  "colors_background": "Background color of the plate",\<newline>'' @
     ''  "colors_lettering": "Color of the letters/numbers",\<newline>'' @
     ''  "colors_strip": "Color/description of the side strip or band (e.g. 'Blue EU band with yellow stars'). null if no strip.",\<newline>'' @
     ''  "typeface": "Name of the font/typeface used on the plate. null if not mentioned.",\<newline>'' @
     ''  "strip_contents": "What is displayed on the strip/band (e.g. 'EU flag and country code D'). null if no strip."\<newline>'' @
     ''}\<newline>'' @
     ''\<newline>'' @
     ''Here is the wikitext:\<newline>'' @
     ''\<newline>''\<close>

definition prompt_tail :: string where
  \<open>prompt_tail =
     ''\<newline>''\<close>

text \<open>\<^verbatim>\<open>EXTRACTION_PROMPT.format(country_name=..., wikitext=...)\<close>: the template
  with its two fields filled in (doubled braces of the template are single braces here).\<close>

definition EXTRACTION_PROMPT :: "string \<Rightarrow> string \<Rightarrow> string" where
  "EXTRACTION_PROMPT country_name wikitext =
     prompt_head @ country_name @ prompt_mid @ wikitext @ prompt_tail"

definition max_chars :: nat where
  "max_chars = 80000"

definition truncation_marker :: string where
  "truncation_marker = ''\<newline>\<newline>[... article truncated ...]''"

text \<open>The visible text of the marker, without the two line breaks before it.\<close>

definition marker_label :: string where
  "marker_label = ''[... article truncated ...]''"

definition fence :: string where
  \<open>fence = ''```''\<close>

definition newline :: char where
  "newline = CHR 0x0A"

subsection \<open>Data\<close>

datatype error =
    HTTPError nat
  | ResponseNotJSON
  | ValueError
  | OverflowError
  | IndexError
  | TypeError
  | JSONDecodeError
  | APIError

datatype json =
    JNull
  | JBool bool
  | JNum int
  | JStr string
  | JArr "json list"
  | JObj "(string \<times> json) list"

text \<open>The dataset document; \<open>entries\<close> is the dictionary from ISO code to extraction
  result, in insertion order.\<close>

record document =
  generated_at :: string
  source :: string
  extraction_model :: string
  entries :: "(string \<times> json) list"

text \<open>What \<^verbatim>\<open>fetch_article_wikitext\<close> reads of a response: the status code, the
  \<^verbatim>\<open>Retry-After\<close> header when present, and the decoded body (\<open>None\<close> when
  \<^verbatim>\<open>resp.json()\<close> raises): whether it has the key \<^verbatim>\<open>error\<close>, and the result of
  \<^verbatim>\<open>data.get("parse", {}).get("wikitext", {}).get("*")\<close>.\<close>

record api_data =
  has_error :: bool
  parse_wikitext :: "string option"

record response =
  status_code :: nat
  retry_after :: "string option"
  body :: "api_data option"

datatype llm_outcome = LLMError | LLMReply string

datatype event =
    Sleep int
  | Get string
  | ClientCreated
  | Completion string string
  | ClockRead string
  | Write document
  | Print string

text \<open>\<open>Get t\<close> is a GET request for the page titled \<open>t\<close>; \<open>Completion n p\<close> is the
  chat-completion request that \<^verbatim>\<open>extract_with_openai\<close> sends for the country named
  \<open>n\<close> with prompt \<open>p\<close>. The services answer as functions of the history so far.\<close>

record env =
  api_key :: "string option"
  server :: "event list \<Rightarrow> string \<Rightarrow> response"
  llm :: "event list \<Rightarrow> string \<Rightarrow> llm_outcome"
  clock :: "event list \<Rightarrow> string"
  json_loads :: "string \<Rightarrow> json option"

record world =
  output_file :: "document option"
  trace :: "event list"

record args =
  dry_run :: bool
  country :: "string option"

record loop_state =
  metadata :: document
  success :: nat
  failed :: nat
  skipped :: nat

datatype outcome =
    MissingCredential
  | UnknownCountry
  | Raised error
  | Done loop_state

subsection \<open>Strings and integers as Python has them\<close>

definition is_space :: "char \<Rightarrow> bool" where
  "is_space c =
     (let n = (of_char c :: nat)
      in (9 \<le> n \<and> n \<le> 13) \<or> (28 \<le> n \<and> n \<le> 32) \<or> n = 133 \<or> n = 160)"

definition lstrip :: "string \<Rightarrow> string" where
  "lstrip s = dropWhile is_space s"

definition rstrip :: "string \<Rightarrow> string" where
  "rstrip s = rev (dropWhile is_space (rev s))"

definition strip :: "string \<Rightarrow> string" where
  "strip s = lstrip (rstrip s)"

definition to_upper :: "char \<Rightarrow> char" where
  "to_upper c =
     (let n = (of_char c :: nat)
      in if 97 \<le> n \<and> n \<le> 122 then char_of (n - 32) else c)"

definition upper :: "string \<Rightarrow> string" where
  "upper s = map to_upper s"

definition is_digit :: "char \<Rightarrow> bool" where
  "is_digit c = (let n = (of_char c :: nat) in 48 \<le> n \<and> n \<le> 57)"

definition digits_value :: "string \<Rightarrow> nat" where
  "digits_value ds = foldl (\<lambda>acc c. 10 * acc + (of_char c - 48)) 0 ds"

fun split_on :: "char \<Rightarrow> string \<Rightarrow> string list" where
  "split_on sep [] = [Nil]"
| "split_on sep (c # cs) =
     (if c = sep then [] # split_on sep cs
      else (case split_on sep cs of
              g # gs \<Rightarrow> (c # g) # gs
            | [] \<Rightarrow> [c # Nil]))"

text \<open>\<^verbatim>\<open>int(s)\<close> on a string: surrounding whitespace, an optional sign, then decimal
  digits, where single underscores may separate digits; anything else is a ValueError.\<close>

definition py_int :: "string \<Rightarrow> error + int" where
  "py_int s =
     (let t = strip s;
          neg = (t \<noteq> [] \<and> hd t = CHR ''-'');
          signed = (t \<noteq> [] \<and> (hd t = CHR ''-'' \<or> hd t = CHR ''+''));
          groups = split_on CHR ''_'' (if signed then tl t else t)
      in if list_all (\<lambda>g. g \<noteq> [] \<and> list_all is_digit g) groups
         then Inr ((if neg then - 1 else 1) * int (digits_value (concat groups)))
         else Inl ValueError)"

text \<open>\<^verbatim>\<open>s.split("\n", 1)[1]\<close>: the text after the first newline; without a newline the
  list has one element and the index is out of range.\<close>

definition after_first_newline :: "string \<Rightarrow> error + string" where
  "after_first_newline s =
     (case dropWhile (\<lambda>c. c \<noteq> newline) s of
        [] \<Rightarrow> Inl IndexError
      | _ # rest \<Rightarrow> Inr rest)"

fun truthy :: "json \<Rightarrow> bool" where
  "truthy JNull = False"
| "truthy (JBool b) = b"
| "truthy (JNum n) = (n \<noteq> 0)"
| "truthy (JStr s) = (s \<noteq> [])"
| "truthy (JArr xs) = (xs \<noteq> [])"
| "truthy (JObj kvs) = (kvs \<noteq> [])"

subsection \<open>Effects\<close>

definition log_event :: "event \<Rightarrow> world \<Rightarrow> world" where
  "log_event e w = w\<lparr>trace := trace w @ [e]\<rparr>"

definition print_all :: "string list \<Rightarrow> world \<Rightarrow> world" where
  "print_all ls w = w\<lparr>trace := trace w @ map Print ls\<rparr>"

text \<open>\<^verbatim>\<open>time.sleep\<close> rejects a negative duration, and one that does not fit the
  platform's 64-bit nanosecond count.\<close>

definition py_sleep :: "int \<Rightarrow> world \<Rightarrow> error + world" where
  "py_sleep secs w =
     (if secs < 0 then Inl ValueError
      else if 9223372036 < secs then Inl OverflowError
      else Inr (log_event (Sleep secs) w))"

definition session_get :: "env \<Rightarrow> string \<Rightarrow> world \<Rightarrow> response \<times> world" where
  "session_get en title w = (server en (trace w) title, log_event (Get title) w)"

definition now :: "env \<Rightarrow> world \<Rightarrow> string \<times> world" where
  "now en w = (clock en (trace w), log_event (ClockRead (clock en (trace w))) w)"

definition write_document :: "document \<Rightarrow> world \<Rightarrow> world" where
  "write_document d w = (log_event (Write d) w)\<lparr>output_file := Some d\<rparr>"

subsection \<open>The fetcher\<close>

definition article_title :: "string \<Rightarrow> string" where
  "article_title article_suffix = ''Vehicle_registration_plates_of_'' @ article_suffix"

text \<open>\<^verbatim>\<open>int(resp.headers.get("Retry-After", 60))\<close>\<close>

definition header_wait :: "response \<Rightarrow> error + int" where
  "header_wait resp =
     (case retry_after resp of
        None \<Rightarrow> Inr 60
      | Some s \<Rightarrow> py_int s)"

text \<open>The end of \<^verbatim>\<open>fetch_article_wikitext\<close>, from \<^verbatim>\<open>resp.raise_for_status()\<close> on:
  a status from 400 to 599 raises; a body with the key \<^verbatim>\<open>error\<close> gives \<open>None\<close>.\<close>

definition read_response :: "response \<Rightarrow> error + string option" where
  "read_response resp =
     (if 400 \<le> status_code resp \<and> status_code resp < 600
      then Inl (HTTPError (status_code resp))
      else (case body resp of
              None \<Rightarrow> Inl ResponseNotJSON
            | Some data \<Rightarrow> if has_error data then Inr None else Inr (parse_wikitext data)))"

definition fetch_article_wikitext ::
  "env \<Rightarrow> string \<Rightarrow> world \<Rightarrow> (error + string option) \<times> world" where
  "fetch_article_wikitext en article_suffix w =
     (let title = article_title article_suffix;
          w1 = log_event (Sleep REQUEST_DELAY) w;
          (resp, w2) = session_get en title w1
      in if status_code resp = 429 then
           (case header_wait resp of
              Inl e \<Rightarrow> (Inl e, w2)
            | Inr wait \<Rightarrow>
                (case py_sleep wait w2 of
                   Inl e \<Rightarrow> (Inl e, w2)
                 | Inr w3 \<Rightarrow>
                     (let (resp2, w4) = session_get en title w3
                      in (read_response resp2, w4))))
         else (read_response resp, w2))"

subsection \<open>The extraction requester\<close>

definition truncate_wikitext :: "string \<Rightarrow> string" where
  "truncate_wikitext wikitext =
     (if max_chars < length wikitext
      then take max_chars wikitext @ truncation_marker
      else wikitext)"

definition build_prompt :: "string \<Rightarrow> string \<Rightarrow> string" where
  "build_prompt country_name wikitext =
     EXTRACTION_PROMPT country_name (truncate_wikitext wikitext)"

text \<open>The fence stripping, applied to the stripped reply.\<close>

definition strip_fences :: "string \<Rightarrow> error + string" where
  "strip_fences response_text =
     (if prefix fence response_text then
        (case after_first_newline response_text of
           Inl e \<Rightarrow> Inl e
         | Inr rest \<Rightarrow>
             Inr (strip (if suffix fence rest then take (length rest - 3) rest else rest)))
      else Inr response_text)"

definition parse_reply :: "(string \<Rightarrow> json option) \<Rightarrow> string \<Rightarrow> error + json" where
  "parse_reply loads content =
     (case strip_fences (strip content) of
        Inl e \<Rightarrow> Inl e
      | Inr response_text \<Rightarrow>
          (case loads response_text of
             None \<Rightarrow> Inl JSONDecodeError
           | Some v \<Rightarrow> Inr v))"

definition extract_with_openai ::
  "env \<Rightarrow> string \<Rightarrow> string \<Rightarrow> world \<Rightarrow> (error + json) \<times> world" where
  "extract_with_openai en country_name wikitext w =
     (let prompt = build_prompt country_name wikitext;
          w1 = log_event (Completion country_name prompt) w
      in case llm en (trace w) prompt of
           LLMError \<Rightarrow> (Inl APIError, w1)
         | LLMReply content \<Rightarrow> (parse_reply (json_loads en) content, w1))"

subsection \<open>The run\<close>

definition country_given :: "args \<Rightarrow> bool" where
  "country_given a = (case country a of None \<Rightarrow> False | Some c \<Rightarrow> c \<noteq> [])"

definition credential_set :: "env \<Rightarrow> bool" where
  "credential_set en = (case api_key en of None \<Rightarrow> False | Some k \<Rightarrow> k \<noteq> [])"

text \<open>The assignments that turn a model result into a stored entry.\<close>

definition stamp_result ::
  "(string \<times> json) list \<Rightarrow> string \<Rightarrow> string \<Rightarrow> string \<Rightarrow> string \<Rightarrow> json" where
  "stamp_result kvs country_name iso_code article_suffix t =
     JObj (AList.update ''extracted_at'' (JStr t)
            (AList.update ''wikipedia_article'' (JStr (article_title article_suffix))
              (AList.update ''iso'' (JStr iso_code)
                (AList.update ''country_name'' (JStr country_name) kvs))))"

definition store_result ::
  "env \<Rightarrow> string \<Rightarrow> string \<Rightarrow> string \<Rightarrow> json \<Rightarrow> loop_state \<Rightarrow> world \<Rightarrow>
     (error + loop_state) \<times> world" where
  "store_result en iso_code country_name article_suffix result st w =
     (case result of
        JObj kvs \<Rightarrow>
          (let (t, w1) = now en w;
               md = (metadata st)\<lparr>entries :=
                      AList.update iso_code (stamp_result kvs country_name iso_code article_suffix t)
                        (entries (metadata st))\<rparr>;
               (t2, w2) = now en w1;
               md2 = md\<lparr>generated_at := t2\<rparr>
           in (Inr (st\<lparr>metadata := md2, success := success st + 1\<rparr>), write_document md2 w2))
      | _ \<Rightarrow> (Inl TypeError, w))"

text \<open>The test at the head of the loop body: the country has an entry already, and the
  run is not restricted to one country.\<close>

definition skip_country :: "args \<Rightarrow> string \<times> string \<times> string \<Rightarrow> loop_state \<Rightarrow> bool" where
  "skip_country a c st = (fst c \<in> fst ` set (entries (metadata st)) \<and> \<not> country_given a)"

text \<open>One iteration of the loop of \<^verbatim>\<open>main\<close>. Only the two exceptions named by the
  \<^verbatim>\<open>except\<close> clauses are turned into a counted failure.\<close>

definition process_country ::
  "env \<Rightarrow> args \<Rightarrow> string \<times> string \<times> string \<Rightarrow> loop_state \<Rightarrow> world \<Rightarrow>
     (error + loop_state) \<times> world" where
  "process_country en a c st w =
     (let iso_code = fst c; country_name = fst (snd c); article_suffix = snd (snd c)
      in if skip_country a c st
         then (Inr (st\<lparr>skipped := skipped st + 1\<rparr>), w)
         else
           (case fetch_article_wikitext en article_suffix w of
              (Inl e, w1) \<Rightarrow> (Inl e, w1)
            | (Inr None, w1) \<Rightarrow> (Inr (st\<lparr>failed := failed st + 1\<rparr>), w1)
            | (Inr (Some wikitext), w1) \<Rightarrow>
                if dry_run a then (Inr (st\<lparr>success := success st + 1\<rparr>), w1)
                else
                  (case extract_with_openai en country_name wikitext w1 of
                     (Inl JSONDecodeError, w2) \<Rightarrow> (Inr (st\<lparr>failed := failed st + 1\<rparr>), w2)
                   | (Inl APIError, w2) \<Rightarrow> (Inr (st\<lparr>failed := failed st + 1\<rparr>), w2)
                   | (Inl e, w2) \<Rightarrow> (Inl e, w2)
                   | (Inr result, w2) \<Rightarrow>
                       if truthy result
                       then store_result en iso_code country_name article_suffix result st w2
                       else (Inr (st\<lparr>failed := failed st + 1\<rparr>), w2))))"

fun run_loop ::
  "env \<Rightarrow> args \<Rightarrow> (string \<times> string \<times> string) list \<Rightarrow> loop_state \<Rightarrow> world \<Rightarrow>
     (error + loop_state) \<times> world" where
  "run_loop en a [] st w = (Inr st, w)"
| "run_loop en a (c # cs) st w =
     (case process_country en a c st w of
        (Inl e, w1) \<Rightarrow> (Inl e, w1)
      | (Inr st1, w1) \<Rightarrow> run_loop en a cs st1 w1)"

text \<open>The choice of countries: the whole table, or the one named by \<^verbatim>\<open>--country\<close>;
  \<open>Inl code\<close> when the upper-cased code is not in the table.\<close>

definition select_countries :: "args \<Rightarrow> string + (string \<times> string \<times> string) list" where
  "select_countries a =
     (case country a of
        None \<Rightarrow> Inr COUNTRIES
      | Some c \<Rightarrow>
          if c = [] then Inr COUNTRIES
          else (case map_of COUNTRIES (upper c) of
                  None \<Rightarrow> Inl (upper c)
                | Some v \<Rightarrow> Inr [(upper c, v)]))"

definition pad4 :: "string \<Rightarrow> string" where
  "pad4 c = c @ replicate (4 - length c) CHR '' ''"

definition table_line :: "string \<times> string \<times> string \<Rightarrow> string" where
  "table_line c = ''  '' @ pad4 (fst c) @ ''  '' @ fst (snd c)"

definition unknown_country_lines :: "string \<Rightarrow> string list" where
  "unknown_country_lines code =
     [''Unknown country code: '' @ code, ''Available codes:'']
       @ map table_line (sort_key fst COUNTRIES)"

definition missing_credential_lines :: "string list" where
  "missing_credential_lines =
     [''Error: OPENAI_API_KEY environment variable is required'',
      ''Set it with: export OPENAI_API_KEY=sk-...'']"

definition initial_metadata :: "string \<Rightarrow> document" where
  "initial_metadata t =
     \<lparr>generated_at = t,
      source = ''Wikipedia (per-country vehicle registration plate articles)'',
      extraction_model = ''gpt-4o-mini'',
      entries = []\<rparr>"

definition load_existing :: "args \<Rightarrow> world \<Rightarrow> document \<Rightarrow> document" where
  "load_existing a w md =
     (case output_file w of
        None \<Rightarrow> md
      | Some existing \<Rightarrow>
          if \<not> country_given a then md\<lparr>entries := entries existing\<rparr> else md)"

definition final_write :: "env \<Rightarrow> args \<Rightarrow> loop_state \<Rightarrow> world \<Rightarrow> loop_state \<times> world" where
  "final_write en a st w =
     (if \<not> dry_run a then
        (let (t, w1) = now en w;
             md = (metadata st)\<lparr>generated_at := t\<rparr>
         in (st\<lparr>metadata := md\<rparr>, write_document md w1))
      else (st, w))"

text \<open>\<^verbatim>\<open>main\<close>, started on the content of the output file (\<open>None\<close> when there is
  no file) with an empty trace.\<close>

definition main :: "env \<Rightarrow> args \<Rightarrow> document option \<Rightarrow> outcome \<times> world" where
  "main en a f0 =
     (let w0 = \<lparr>output_file = f0, trace = []\<rparr>
      in if \<not> credential_set en \<and> \<not> dry_run a
         then (MissingCredential, print_all missing_credential_lines w0)
         else
           (let w1 = (if \<not> dry_run a then log_event ClientCreated w0 else w0)
            in case select_countries a of
                 Inl code \<Rightarrow> (UnknownCountry, print_all (unknown_country_lines code) w1)
               | Inr countries \<Rightarrow>
                   (let (t0, w2) = now en w1;
                        md = load_existing a w2 (initial_metadata t0);
                        st0 = \<lparr>metadata = md, success = 0, failed = 0, skipped = 0\<rparr>
                    in case run_loop en a countries st0 w2 of
                         (Inl e, w3) \<Rightarrow> (Raised e, w3)
                       | (Inr st, w3) \<Rightarrow>
                           (let (st1, w4) = final_write en a st w3
                            in (Done st1, w4)))))"

subsection \<open>Reading a trace\<close>

text \<open>What \<^verbatim>\<open>main\<close> has logged when the loop starts.\<close>

definition start_trace :: "args \<Rightarrow> event list" where
  "start_trace a = (if dry_run a then [] else [ClientCreated])"

text \<open>The events that one iteration of the loop can add for the country \<open>c\<close>.\<close>

definition country_event :: "args \<Rightarrow> string \<times> string \<times> string \<Rightarrow> event \<Rightarrow> bool" where
  "country_event a c e =
     (case e of
        Sleep n \<Rightarrow> True
      | Get t \<Rightarrow> t = article_title (snd (snd c))
      | Completion n p \<Rightarrow> n = fst (snd c) \<and> \<not> dry_run a
      | ClockRead t \<Rightarrow> \<not> dry_run a
      | Write d \<Rightarrow> \<not> dry_run a
      | ClientCreated \<Rightarrow> False
      | Print s \<Rightarrow> False)"

definition is_network :: "event \<Rightarrow> bool" where
  "is_network e = (case e of Get t \<Rightarrow> True | Completion n p \<Rightarrow> True | _ \<Rightarrow> False)"

definition is_write :: "event \<Rightarrow> bool" where
  "is_write e = (case e of Write d \<Rightarrow> True | _ \<Rightarrow> False)"

subsection \<open>Example runs\<close>

text \<open>Servers, replies, arguments and a stored document, to run the model on.\<close>

definition ok_response :: "string \<Rightarrow> response" where
  "ok_response wikitext =
     \<lparr>status_code = 200, retry_after = None,
      body = Some \<lparr>has_error = False, parse_wikitext = Some wikitext\<rparr>\<rparr>"

definition status_response :: "nat \<Rightarrow> string option \<Rightarrow> response" where
  "status_response code hdr = \<lparr>status_code = code, retry_after = hdr, body = None\<rparr>"

definition example_env :: "(event list \<Rightarrow> string \<Rightarrow> response) \<Rightarrow> llm_outcome \<Rightarrow> env" where
  \<open>example_env srv reply =
     \<lparr>api_key = Some ''sk-test'', server = srv, llm = (\<lambda>tr p. reply),
      clock = (\<lambda>tr. ''2026-01-01T00:00:00+00:00''),
      json_loads = (\<lambda>s. if s = ''{}'' then Some (JObj [])
                         else if s = ''{"format_pattern": "LL NN"}''
                         then Some (JObj [(''format_pattern'', JStr ''LL NN'')])
                         else None)\<rparr>\<close>


definition empty_world :: world where
  "empty_world = \<lparr>output_file = None, trace = []\<rparr>"

definition failing_server :: "event list \<Rightarrow> string \<Rightarrow> response" where
  "failing_server tr t = status_response 500 None"

definition good_server :: "event list \<Rightarrow> string \<Rightarrow> response" where
  "good_server tr t = ok_response ''{{Infobox}}''"

definition good_reply :: llm_outcome where
  \<open>good_reply = LLMReply ''{"format_pattern": "LL NN"}''\<close>

definition full_run :: args where
  "full_run = \<lparr>dry_run = False, country = None\<rparr>"

definition only :: "string \<Rightarrow> args" where
  "only c = \<lparr>dry_run = False, country = Some c\<rparr>"

definition collected :: document where
  "collected =
     \<lparr>generated_at = ''2025-12-31T00:00:00+00:00'',
      source = ''Wikipedia (per-country vehicle registration plate articles)'',
      extraction_model = ''gpt-4o-mini'',
      entries = [(''FR'', JObj [(''format_pattern'', JStr ''LL-NNN-LL'')]),
                 (''DE'', JObj [(''format_pattern'', JStr ''LLL LL NNNN'')])]\<rparr>"

definition dry_only :: "string \<Rightarrow> args" where
  "dry_only c = \<lparr>dry_run = True, country = Some c\<rparr>"

definition no_key_env :: env where
  "no_key_env = (example_env good_server LLMError)\<lparr>api_key := None\<rparr>"

definition missing_server :: "event list \<Rightarrow> string \<Rightarrow> response" where
  "missing_server tr t =
     \<lparr>status_code = 200, retry_after = None,
      body = Some \<lparr>has_error = True, parse_wikitext = None\<rparr>\<rparr>"

definition fresh_state :: loop_state where
  "fresh_state =
     \<lparr>metadata = initial_metadata ''2026-01-01T00:00:00+00:00'',
      success = 0, failed = 0, skipped = 0\<rparr>"

definition germany :: "string \<times> string \<times> string" where
  "germany = (''DE'', ''Germany'', ''Germany'')"

definition after_fetch :: world where
  "after_fetch =
     \<lparr>output_file = None,
      trace = [Sleep 1, Get ''Vehicle_registration_plates_of_Germany'']\<rparr>"

section \<open>Properties\<close>

subsection \<open>Stripping and splitting\<close>

lemma not_space_backtick: "\<not> is_space (CHR 0x60)"
  by (simp add: is_space_def)



lemma set_strip: "set (strip s) \<subseteq> set s"
proof -
  have "set (strip s) \<subseteq> set (rstrip s)"
    unfolding strip_def lstrip_def by (rule set_dropWhileD[THEN subsetI]) 
  also have "\<dots> \<subseteq> set s"
    unfolding rstrip_def using set_dropWhileD[of _ is_space "rev s"] by auto
  finally show ?thesis .
qed


lemma prefix_fence_strip: "prefix fence r \<Longrightarrow> prefix fence (strip r)"
proof -
  assume "prefix fence r"
  then obtain t where r: "r = fence @ t" by (auto simp: prefix_def)
  have "rstrip r = fence @ rstrip t"
    unfolding r rstrip_def fence_def
    by (simp add: dropWhile_append not_space_backtick)
  then show ?thesis
    by (simp add: strip_def lstrip_def fence_def not_space_backtick)
qed

lemma after_first_newline_none: "newline \<notin> set s \<Longrightarrow> after_first_newline s = Inl IndexError"
proof -
  assume "newline \<notin> set s"
  then have d: "dropWhile (\<lambda>c. c \<noteq> newline) s = []" by (induction s) auto
  show ?thesis unfolding after_first_newline_def d by simp
qed




subsection \<open>The prompt\<close>

lemma truncation_marker_label: "truncation_marker = [newline, newline] @ marker_label"
  by (simp add: truncation_marker_def marker_label_def newline_def)

lemma bracket_notin_head: "CHR ''['' \<notin> set prompt_head"
  by (simp add: prompt_head_def)

lemma bracket_notin_mid: "CHR ''['' \<notin> set prompt_mid"
  by (simp add: prompt_mid_def)

lemma prompt_mid_start: "\<exists>r. prompt_mid = CHR ''.'' # newline # r"
  by (simp add: prompt_mid_def newline_def)

lemma prompt_tail_eq: "prompt_tail = [newline]"
  by (simp add: prompt_tail_def newline_def)

lemma label_facts:
  "marker_label = CHR ''['' # tl marker_label" "newline \<notin> set marker_label"
  "last marker_label = CHR '']''" 
  by (simp_all add: marker_label_def newline_def)

lemma sublist_skip_clean:
  assumes "sublist (c # m) (a @ b)" and "c \<notin> set a"
  shows "sublist (c # m) b"
proof -
  from assms(1) consider "sublist (c # m) a" | "sublist (c # m) b"
    | xs1 xs2 where "c # m = xs1 @ xs2" "suffix xs1 a" "prefix xs2 b"
    by (auto simp: sublist_append)
  then show ?thesis
  proof cases
    case 1
    then have "c \<in> set a" using set_mono_sublist by fastforce
    with assms(2) show ?thesis by simp
  next
    case 2
    then show ?thesis .
  next
    case 3
    show ?thesis
    proof (cases xs1)
      case Nil
      with 3 show ?thesis by (simp add: prefix_imp_sublist)
    next
      case (Cons y ys)
      with 3 have "c = y" by simp
      moreover have "y \<in> set a" using 3(2) Cons set_mono_suffix by fastforce
      ultimately show ?thesis using assms(2) by simp
    qed
  qed
qed

lemma label_not_in_filled_template:
  assumes n: "\<not> sublist marker_label name" and w: "\<not> sublist marker_label wikitext"
  shows "\<not> sublist marker_label (prompt_head @ name @ prompt_mid @ wikitext @ prompt_tail)"
proof
  assume "sublist marker_label (prompt_head @ name @ prompt_mid @ wikitext @ prompt_tail)"
  then have s1: "sublist marker_label (name @ prompt_mid @ wikitext @ prompt_tail)"
    using sublist_skip_clean[of "CHR ''[''" "tl marker_label" prompt_head]
      label_facts(1) bracket_notin_head by metis
  have tail_case: False if "sublist marker_label (wikitext @ prompt_tail)"
  proof -
    from that w consider "sublist marker_label prompt_tail"
      | xs1 xs2 where "marker_label = xs1 @ xs2" "suffix xs1 wikitext" "prefix xs2 [newline]"
      by (auto simp: sublist_append prompt_tail_eq)
    then show False
    proof cases
      case 1
      then have "set marker_label \<subseteq> set prompt_tail" by (rule set_mono_sublist)
      then show False by (simp add: marker_label_def prompt_tail_def)
    next
      case 2
      from 2(3) have "xs2 = [] \<or> xs2 = [newline]" by (cases xs2) auto
      then show False
      proof
        assume "xs2 = []"
        with 2 have "suffix marker_label wikitext" by simp
        then show False using w by (simp add: suffix_imp_sublist)
      next
        assume "xs2 = [newline]"
        then have "newline \<in> set (xs1 @ xs2)" by simp
        then show False using label_facts(2) 2(1) by metis
      qed
    qed
  qed
  from s1 n consider "sublist marker_label (prompt_mid @ wikitext @ prompt_tail)"
    | xs1 xs2 where "marker_label = xs1 @ xs2" "suffix xs1 name"
        "prefix xs2 (prompt_mid @ wikitext @ prompt_tail)"
    by (auto simp: sublist_append)
  then show False
  proof cases
    case 1
    then have "sublist marker_label (wikitext @ prompt_tail)"
      using sublist_skip_clean[of "CHR ''[''" "tl marker_label" prompt_mid]
        label_facts(1) bracket_notin_mid by metis
    then show False by (rule tail_case)
  next
    case 2
    obtain r where r: "prompt_mid = CHR ''.'' # newline # r" using prompt_mid_start by blast
    have p2: "prefix xs2 (CHR ''.'' # newline # r @ wikitext @ prompt_tail)"
      using 2(3) unfolding r by simp
    show False
    proof (cases xs2)
      case Nil
      with 2 have "suffix marker_label name" by simp
      then show False using n by (simp add: suffix_imp_sublist)
    next
      case (Cons y ys)
      note xs2 = Cons
      show False
      proof (cases ys)
        case Nil
        with xs2 p2 have "xs2 = [CHR ''.'']" by simp
        then have "last (xs1 @ xs2) = CHR ''.''" by simp
        then show False using label_facts(3) 2(1) by simp
      next
        case (Cons z zs)
        with xs2 p2 have "z = newline" by simp
        with Cons xs2 have "newline \<in> set (xs1 @ xs2)" by simp
        then show False using label_facts(2) 2(1) by metis
      qed
    qed
  qed
qed


subsection \<open>C5: truncation of long wikitext\<close>

text \<open>
  Claim C5, as far as the code goes. A wikitext longer than \<open>max_chars\<close> (80000) is cut to
  its first 80000 characters and the truncation marker is appended before the template is
  filled, so the prompt contains the marker. A wikitext of at most 80000 characters is put
  into the template unchanged and nothing is appended; the prompt then contains no marker,
  provided the marker's text occurs neither in the country name nor in the wikitext.
\<close>

theorem prompt_truncation:
  "(max_chars < length wikitext \<longrightarrow>
      build_prompt name wikitext =
        prompt_head @ name @ prompt_mid @ take max_chars wikitext @ truncation_marker @ prompt_tail
      \<and> sublist truncation_marker (build_prompt name wikitext))
   \<and> (length wikitext \<le> max_chars \<longrightarrow>
      build_prompt name wikitext = prompt_head @ name @ prompt_mid @ wikitext @ prompt_tail
      \<and> (\<not> sublist marker_label name \<and> \<not> sublist marker_label wikitext \<longrightarrow>
           \<not> sublist marker_label (build_prompt name wikitext)
           \<and> \<not> sublist truncation_marker (build_prompt name wikitext)))"
proof (intro conjI impI)
  assume long: "max_chars < length wikitext"
  show eq: "build_prompt name wikitext =
        prompt_head @ name @ prompt_mid @ take max_chars wikitext @ truncation_marker @ prompt_tail"
    using long by (simp add: build_prompt_def truncate_wikitext_def EXTRACTION_PROMPT_def)
  have "build_prompt name wikitext =
      (prompt_head @ name @ prompt_mid @ take max_chars wikitext) @ truncation_marker @ prompt_tail"
    unfolding eq by simp
  then show "sublist truncation_marker (build_prompt name wikitext)"
    unfolding sublist_def by blast
next
  assume short: "length wikitext \<le> max_chars"
  show eq: "build_prompt name wikitext = prompt_head @ name @ prompt_mid @ wikitext @ prompt_tail"
    using short by (simp add: build_prompt_def truncate_wikitext_def EXTRACTION_PROMPT_def)
  assume h: "\<not> sublist marker_label name \<and> \<not> sublist marker_label wikitext"
  then show nl: "\<not> sublist marker_label (build_prompt name wikitext)"
    unfolding eq using label_not_in_filled_template by blast
  have "sublist marker_label ([newline, newline] @ marker_label @ [])"
    by (rule sublist_appendI)
  then have "sublist marker_label truncation_marker"
    unfolding truncation_marker_label by simp
  then show "\<not> sublist truncation_marker (build_prompt name wikitext)"
    using nl sublist_order.order.trans by blast
qed

theorem prompt_truncation_witness:
  "max_chars < length (replicate 80001 CHR ''a'')
   \<and> sublist truncation_marker (build_prompt ''Germany'' (replicate 80001 CHR ''a''))
   \<and> length ''{{Infobox}}'' \<le> max_chars
   \<and> \<not> sublist marker_label ''Germany'' \<and> \<not> sublist marker_label ''{{Infobox}}''
   \<and> build_prompt ''Germany'' ''{{Infobox}}''
         = prompt_head @ ''Germany'' @ prompt_mid @ ''{{Infobox}}'' @ prompt_tail
   \<and> \<not> sublist truncation_marker (build_prompt ''Germany'' ''{{Infobox}}'')"
proof -
  have long: "max_chars < length (replicate 80001 CHR ''a'')"
    by (simp add: max_chars_def)
  have short: "length ''{{Infobox}}'' \<le> max_chars"
    by (simp add: max_chars_def)
  have clean: "\<not> sublist marker_label ''Germany''" "\<not> sublist marker_label ''{{Infobox}}''"
    by (simp_all add: marker_label_def sublist_code)
  show ?thesis
    using long short clean
      prompt_truncation [of "replicate 80001 CHR ''a''" "''Germany''"]
      prompt_truncation [of "''{{Infobox}}''" "''Germany''"]
    by blast
qed

text \<open>
  Claim C5 as stated fails in its last part: a wikitext under the budget that itself holds
  the marker text gives a prompt that contains the marker.
\<close>

theorem short_wikitext_with_marker_counterexample:
  "length truncation_marker \<le> max_chars \<and>
   sublist truncation_marker (build_prompt ''Germany'' truncation_marker)"
proof -
  have short: "length truncation_marker \<le> max_chars"
    by (simp add: truncation_marker_def max_chars_def)
  then have "build_prompt ''Germany'' truncation_marker =
      (prompt_head @ ''Germany'' @ prompt_mid) @ truncation_marker @ prompt_tail"
    by (simp add: build_prompt_def truncate_wikitext_def EXTRACTION_PROMPT_def)
  then have "sublist truncation_marker (build_prompt ''Germany'' truncation_marker)"
    unfolding sublist_def by blast
  with short show ?thesis by simp
qed

subsection \<open>C6: a fenced reply is parsed like the bare one\<close>



subsection \<open>The fetcher\<close>




subsection \<open>C7: one retry after a rate-limit response\<close>




subsection \<open>What one iteration does to the world\<close>

lemma parse_reply_no_newline:
  assumes "prefix fence reply" and "newline \<notin> set reply"
  shows "parse_reply loads reply = Inl IndexError"
proof -
  have "prefix fence (strip reply)" using assms(1) by (rule prefix_fence_strip)
  moreover have "newline \<notin> set (strip reply)" using assms(2) set_strip by blast
  ultimately show ?thesis
    by (simp add: parse_reply_def strip_fences_def after_first_newline_none)
qed

lemma extract_api_error:
  "llm en (trace w) (build_prompt nm wt) = LLMError \<Longrightarrow>
   extract_with_openai en nm wt w = (Inl APIError, log_event (Completion nm (build_prompt nm wt)) w)"
  by (simp add: extract_with_openai_def Let_def)

lemma fetch_effects:
  assumes "fetch_article_wikitext en sfx w = (r, w')"
  shows "output_file w' = output_file w"
    and "\<exists>new. trace w' = trace w @ new \<and> list_all (country_event a (i, n, sfx)) new"
  using assms
  by (auto simp: fetch_article_wikitext_def session_get_def log_event_def Let_def py_sleep_def
      country_event_def split: sum.splits if_splits)

lemma extract_effects:
  assumes "extract_with_openai en nm wt w = (r, w')" and "\<not> dry_run a"
  shows "output_file w' = output_file w"
    and "\<exists>new. trace w' = trace w @ new \<and> list_all (country_event a (i, nm, s)) new"
  using assms
  by (auto simp: extract_with_openai_def log_event_def Let_def country_event_def
      split: llm_outcome.splits)

lemma store_effects:
  assumes "store_result en i nm s res st w = (r, w')" and "\<not> dry_run a"
  shows "\<exists>new. trace w' = trace w @ new \<and> list_all (country_event a (i, nm, s)) new"
  using assms
  by (auto simp: store_result_def now_def write_document_def log_event_def Let_def
      country_event_def split: json.splits)

lemma process_country_trace:
  assumes "process_country en a c st w = (r, w')"
  shows "\<exists>new. trace w' = trace w @ new \<and> list_all (country_event a c) new"
proof (cases "skip_country a c st")
  case True
  with assms have "w' = w" by (simp add: process_country_def)
  then show ?thesis by simp
next
  case False
  obtain i nm s where c: "c = (i, nm, s)" by (cases c) auto
  obtain fr w1 where f: "fetch_article_wikitext en s w = (fr, w1)" by fastforce
  from fetch_effects(2)[OF f, of a i nm] obtain n1 where
    n1: "trace w1 = trace w @ n1" "list_all (country_event a c) n1" unfolding c by blast
  show ?thesis
  proof (cases "\<exists>wt. fr = Inr (Some wt) \<and> \<not> dry_run a")
    case no: False
    with assms False f have "w' = w1"
      by (auto simp: process_country_def c split: sum.splits option.splits)
    with n1 show ?thesis by blast
  next
    case True
    then obtain wt where wt: "fr = Inr (Some wt)" and nd: "\<not> dry_run a" by blast
    obtain xr w2 where x: "extract_with_openai en nm wt w1 = (xr, w2)" by fastforce
    from extract_effects(2)[OF x nd, of i s] obtain n2 where
      n2: "trace w2 = trace w1 @ n2" "list_all (country_event a c) n2" unfolding c by blast
    show ?thesis
    proof (cases "\<exists>res. xr = Inr res \<and> truthy res")
      case False
      with assms \<open>\<not> skip_country a c st\<close> f wt nd x
      have "w' = w2"
        by (auto simp: process_country_def c split: sum.splits error.splits)
      with n1 n2 show ?thesis by auto
    next
      case True
      then obtain res where res: "xr = Inr res" "truthy res" by blast
      with assms \<open>\<not> skip_country a c st\<close> f wt nd x
      have "store_result en i nm s res st w2 = (r, w')"
        by (auto simp: process_country_def c)
      from store_effects[OF this nd] obtain n3 where
        "trace w' = trace w2 @ n3" "list_all (country_event a c) n3" unfolding c by blast
      with n1 n2 show ?thesis by auto
    qed
  qed
qed

lemma store_result_cases:
  assumes "store_result en i nm s res st w = (r, w')"
  shows "(\<exists>e. r = Inl e \<and> w' = w)
       \<or> (\<exists>st' x. r = Inr st' \<and> output_file w' = Some (metadata st')
            \<and> entries (metadata st') = AList.update i x (entries (metadata st))
            \<and> success st' = success st + 1 \<and> failed st' = failed st \<and> skipped st' = skipped st)"
  using assms
  by (auto simp: store_result_def now_def write_document_def log_event_def Let_def
      split: json.splits)

lemma process_country_cases:
  assumes "process_country en a c st w = (r, w')"
  shows "(output_file w' = output_file w
            \<and> (\<forall>st'. r = Inr st' \<longrightarrow> entries (metadata st') = entries (metadata st)))
       \<or> (\<exists>st' x. r = Inr st' \<and> \<not> skip_country a c st \<and> \<not> dry_run a
            \<and> output_file w' = Some (metadata st')
            \<and> entries (metadata st') = AList.update (fst c) x (entries (metadata st)))"
proof (cases "skip_country a c st")
  case True
  with assms show ?thesis by (auto simp: process_country_def skip_country_def)
next
  case ns: False
  obtain i nm s where c: "c = (i, nm, s)" by (cases c) auto
  obtain fr w1 where f: "fetch_article_wikitext en s w = (fr, w1)" by fastforce
  note f1 = fetch_effects(1)[OF f]
  show ?thesis
  proof (cases "\<exists>wt. fr = Inr (Some wt) \<and> \<not> dry_run a")
    case False
    with assms ns f f1 show ?thesis
      by (auto simp: process_country_def skip_country_def c split: sum.splits option.splits)
  next
    case True
    then obtain wt where wt: "fr = Inr (Some wt)" and nd: "\<not> dry_run a" by blast
    obtain xr w2 where x: "extract_with_openai en nm wt w1 = (xr, w2)" by fastforce
    note x1 = extract_effects(1)[OF x nd]
    show ?thesis
    proof (cases "\<exists>res. xr = Inr res \<and> truthy res")
      case False
      with assms ns f wt nd x f1 x1 show ?thesis
        by (auto simp: process_country_def skip_country_def c split: sum.splits error.splits)
    next
      case True
      then obtain res where res: "xr = Inr res" "truthy res" by blast
      with assms ns f wt nd x
      have "store_result en i nm s res st w2 = (r, w')"
        by (auto simp: process_country_def skip_country_def c)
      from store_result_cases[OF this] f1 x1 ns nd show ?thesis
        unfolding c by auto
    qed
  qed
qed

lemmas run_defs = main_def credential_set_def example_env_def select_countries_def
  upper_def to_upper_def COUNTRIES_def now_def log_event_def load_existing_def
  initial_metadata_def country_given_def skip_country_def process_country_def fetch_article_wikitext_def
  session_get_def article_title_def REQUEST_DELAY_def read_response_def ok_response_def
  good_server_def extract_with_openai_def final_write_def write_document_def
  only_def dry_only_def full_run_def Let_def

lemma fetch_germany:
  "fetch_article_wikitext (example_env good_server reply) ''Germany'' empty_world
     = (Inr (Some ''{{Infobox}}''), after_fetch)"
  by (simp add: fetch_article_wikitext_def session_get_def log_event_def empty_world_def
      example_env_def good_server_def ok_response_def read_response_def article_title_def
      REQUEST_DELAY_def after_fetch_def Let_def)

lemma fetch_missing:
  "fetch_article_wikitext (example_env missing_server reply) ''Germany'' empty_world
     = (Inr None, after_fetch)"
  by (simp add: fetch_article_wikitext_def session_get_def log_event_def empty_world_def
      example_env_def missing_server_def read_response_def article_title_def
      REQUEST_DELAY_def after_fetch_def Let_def)

lemma not_skipped_fresh: "\<not> skip_country a germany fresh_state"
  by (simp add: skip_country_def fresh_state_def initial_metadata_def)

subsection \<open>C10: a fence without a line break\<close>

text \<open>
  Claim C10. For a reply that starts with three backticks and holds no line break, the
  fence stripping raises IndexError. In the loop body that error is neither of the two
  that are caught: the iteration raises instead of counting a failure, and so does the
  loop.
\<close>

theorem unterminated_fence_not_counted:
  assumes "prefix fence reply" and "newline \<notin> set reply"
  shows "parse_reply loads reply = Inl IndexError
     \<and> (\<not> skip_country a (iso_code, nm, sfx) st
          \<and> \<not> dry_run a
          \<and> fetch_article_wikitext en sfx w = (Inr (Some wt), w1)
          \<and> llm en (trace w1) (build_prompt nm wt) = LLMReply reply
        \<longrightarrow> process_country en a (iso_code, nm, sfx) st w
              = (Inl IndexError, log_event (Completion nm (build_prompt nm wt)) w1)
            \<and> run_loop en a ((iso_code, nm, sfx) # cs) st w
              = (Inl IndexError, log_event (Completion nm (build_prompt nm wt)) w1))"
proof (intro conjI impI)
  show "parse_reply loads reply = Inl IndexError"
    using assms by (rule parse_reply_no_newline)
next
  assume h: "\<not> skip_country a (iso_code, nm, sfx) st
          \<and> \<not> dry_run a
          \<and> fetch_article_wikitext en sfx w = (Inr (Some wt), w1)
          \<and> llm en (trace w1) (build_prompt nm wt) = LLMReply reply"
  have x: "extract_with_openai en nm wt w1
             = (Inl IndexError, log_event (Completion nm (build_prompt nm wt)) w1)"
    using h parse_reply_no_newline[OF assms] by (simp add: extract_with_openai_def Let_def)
  show p: "process_country en a (iso_code, nm, sfx) st w
              = (Inl IndexError, log_event (Completion nm (build_prompt nm wt)) w1)"
    using h x by (simp add: process_country_def)
  show "run_loop en a ((iso_code, nm, sfx) # cs) st w
              = (Inl IndexError, log_event (Completion nm (build_prompt nm wt)) w1)"
    using p by simp
qed

theorem unterminated_fence_not_counted_witness:
  \<open>prefix fence ''```{}```'' \<and> newline \<notin> set ''```{}```''
   \<and> parse_reply (json_loads (example_env good_server (LLMReply ''```{}```''))) ''```{}```''
       = Inl IndexError
   \<and> \<not> skip_country (only ''DE'') (''DE'', ''Germany'', ''Germany'') fresh_state
   \<and> process_country (example_env good_server (LLMReply ''```{}```'')) (only ''DE'')
         (''DE'', ''Germany'', ''Germany'') fresh_state empty_world
       = (Inl IndexError,
          log_event (Completion ''Germany'' (build_prompt ''Germany'' ''{{Infobox}}'')) after_fetch)
   \<and> fst (main (example_env good_server (LLMReply ''```{}```'')) (only ''DE'') None)
       = Raised IndexError\<close>
proof -
  let ?E = \<open>example_env good_server (LLMReply ''```{}```'')\<close>
  have h1: \<open>prefix fence ''```{}```''\<close> by (simp add: fence_def)
  have h2: \<open>newline \<notin> set ''```{}```''\<close> by (simp add: newline_def)
  have h3: "\<not> skip_country (only ''DE'') (''DE'', ''Germany'', ''Germany'') fresh_state"
    using not_skipped_fresh by (simp add: germany_def)
  have h4: "\<not> dry_run (only ''DE'')" by (simp add: only_def)
  have h5: "fetch_article_wikitext ?E ''Germany'' empty_world
              = (Inr (Some ''{{Infobox}}''), after_fetch)"
    by (rule fetch_germany)
  have h6: \<open>llm ?E (trace after_fetch) (build_prompt ''Germany'' ''{{Infobox}}'')
              = LLMReply ''```{}```''\<close>
    by (simp add: example_env_def)
  have m: "fst (main ?E (only ''DE'') None) = Raised IndexError"
    by (simp add: run_defs parse_reply_def strip_fences_def after_first_newline_def strip_def
        lstrip_def rstrip_def is_space_def fence_def newline_def)
  from unterminated_fence_not_counted [OF h1 h2, where a = "only ''DE''"
      and iso_code = "''DE''" and nm = "''Germany''" and sfx = "''Germany''"
      and st = fresh_state and en = ?E and w = empty_world and wt = "''{{Infobox}}''"
      and ?w1.0 = after_fetch and cs = "[]" and loads = "json_loads ?E"]
    h3 h4 h5 h6
  have "parse_reply (json_loads ?E) ''```{}```'' = Inl IndexError
      \<and> process_country ?E (only ''DE'') (''DE'', ''Germany'', ''Germany'') fresh_state empty_world
       = (Inl IndexError,
          log_event (Completion ''Germany'' (build_prompt ''Germany'' ''{{Infobox}}'')) after_fetch)"
    by blast
  with h1 h2 h3 m show ?thesis by blast
qed

subsection \<open>C2: which failures are counted\<close>

text \<open>
  Claim C2, as far as the code goes. For a country that is not skipped, each of these
  adds one to the failure counter, leaves the collected entries alone and lets the loop go
  on with the next country: the fetch finds no article; the extraction raises
  JSONDecodeError (the reply is not JSON); the extraction raises APIError; the reply
  parses to something empty or null.
\<close>

theorem counted_failures_continue:
  assumes "\<not> skip_country a (iso_code, nm, sfx) st"
  shows "(fetch_article_wikitext en sfx w = (Inr None, w1) \<longrightarrow>
            run_loop en a ((iso_code, nm, sfx) # cs) st w
              = run_loop en a cs (st\<lparr>failed := failed st + 1\<rparr>) w1)
       \<and> (fetch_article_wikitext en sfx w = (Inr (Some wt), w1) \<and> \<not> dry_run a
            \<and> extract_with_openai en nm wt w1 = (r, w2)
            \<and> (r = Inl JSONDecodeError \<or> r = Inl APIError \<or> (\<exists>j. r = Inr j \<and> \<not> truthy j)) \<longrightarrow>
            run_loop en a ((iso_code, nm, sfx) # cs) st w
              = run_loop en a cs (st\<lparr>failed := failed st + 1\<rparr>) w2)"
  using assms by (auto simp: process_country_def)

theorem counted_failures_continue_witness:
  "run_loop (example_env missing_server LLMError) (only ''DE'')
       [(''DE'', ''Germany'', ''Germany'')] fresh_state empty_world
     = (Inr (fresh_state\<lparr>failed := 1\<rparr>), after_fetch)
   \<and> run_loop (example_env good_server LLMError) (only ''DE'')
       [(''DE'', ''Germany'', ''Germany'')] fresh_state empty_world
     = (Inr (fresh_state\<lparr>failed := 1\<rparr>),
        log_event (Completion ''Germany'' (build_prompt ''Germany'' ''{{Infobox}}'')) after_fetch)
   \<and> run_loop (example_env good_server (LLMReply ''no json here'')) (only ''DE'')
       [(''DE'', ''Germany'', ''Germany'')] fresh_state empty_world
     = (Inr (fresh_state\<lparr>failed := 1\<rparr>),
        log_event (Completion ''Germany'' (build_prompt ''Germany'' ''{{Infobox}}'')) after_fetch)"
proof -
  let ?c = "(''DE'', ''Germany'', ''Germany'')"
  let ?w2 = "log_event (Completion ''Germany'' (build_prompt ''Germany'' ''{{Infobox}}'')) after_fetch"
  have ns: "\<not> skip_country (only ''DE'') ?c fresh_state"
    using not_skipped_fresh by (simp add: germany_def)
  have nd: "\<not> dry_run (only ''DE'')" by (simp add: only_def)
  have f1: "failed fresh_state + 1 = 1" by (simp add: fresh_state_def)
  have a: "run_loop (example_env missing_server LLMError) (only ''DE'') [?c] fresh_state empty_world
             = (Inr (fresh_state\<lparr>failed := 1\<rparr>), after_fetch)"
    using counted_failures_continue [OF ns, where en = "example_env missing_server LLMError"
        and w = empty_world and ?w1.0 = after_fetch and cs = "[]"] fetch_missing f1
    by simp
  have x1: "extract_with_openai (example_env good_server LLMError) ''Germany'' ''{{Infobox}}''
              after_fetch = (Inl APIError, ?w2)"
    by (simp add: extract_with_openai_def example_env_def Let_def)
  have b: "run_loop (example_env good_server LLMError) (only ''DE'') [?c] fresh_state empty_world
             = (Inr (fresh_state\<lparr>failed := 1\<rparr>), ?w2)"
    using counted_failures_continue [OF ns, where en = "example_env good_server LLMError"
        and w = empty_world and ?w1.0 = after_fetch and cs = "[]" and wt = "''{{Infobox}}''"
        and r = "Inl APIError" and ?w2.0 = ?w2] fetch_germany nd x1 f1
    by simp
  have x2: "extract_with_openai (example_env good_server (LLMReply ''no json here''))
              ''Germany'' ''{{Infobox}}'' after_fetch = (Inl JSONDecodeError, ?w2)"
    by (simp add: extract_with_openai_def example_env_def Let_def parse_reply_def
        strip_fences_def strip_def lstrip_def rstrip_def is_space_def fence_def)
  have c: "run_loop (example_env good_server (LLMReply ''no json here'')) (only ''DE'') [?c]
             fresh_state empty_world = (Inr (fresh_state\<lparr>failed := 1\<rparr>), ?w2)"
    using counted_failures_continue [OF ns,
        where en = "example_env good_server (LLMReply ''no json here'')"
        and w = empty_world and ?w1.0 = after_fetch and cs = "[]" and wt = "''{{Infobox}}''"
        and r = "Inl JSONDecodeError" and ?w2.0 = ?w2] fetch_germany nd x2 f1
    by simp
  from a b c show ?thesis by blast
qed

text \<open>
  Claim C2 as stated fails for a fetch failure: a response with status 500 makes
  \<^verbatim>\<open>raise_for_status\<close> raise outside any handler. On the whole table the run ends
  with that error at the first country, and no other country is fetched.
\<close>

theorem http_failure_aborts_batch_counterexample:
  "main (example_env failing_server LLMError) full_run None
     = (Raised (HTTPError 500),
        \<lparr>output_file = None,
         trace = [ClientCreated, ClockRead ''2026-01-01T00:00:00+00:00'', Sleep 1,
                  Get ''Vehicle_registration_plates_of_Albania'']\<rparr>)"
  by (simp add: run_defs failing_server_def status_response_def)

subsection \<open>What the loop does to the world\<close>


lemma keys_update: "fst ` set (AList.update i x al) = insert i (fst ` set al)"
  by (simp add: dom_update)



text \<open>Every event of the loop comes from a country that was not skipped.\<close>

lemma run_loop_trace:
  assumes "run_loop en a cs st w = (r, w')"
  shows "\<exists>new. trace w' = trace w @ new
           \<and> (\<forall>e\<in>set new. \<exists>c\<in>set cs. country_event a c e
                 \<and> (\<not> country_given a \<longrightarrow> fst c \<notin> fst ` set (entries (metadata st))))"
  using assms
proof (induction cs arbitrary: st w)
  case Nil
  then show ?case by auto
next
  case (Cons c cs)
  obtain r1 w1 where p: "process_country en a c st w = (r1, w1)" by fastforce
  from process_country_trace[OF p] obtain n1 where
    n1: "trace w1 = trace w @ n1" "list_all (country_event a c) n1" by blast
  have n1_ok: "\<forall>e\<in>set n1. country_event a c e
                 \<and> (\<not> country_given a \<longrightarrow> fst c \<notin> fst ` set (entries (metadata st)))"
  proof (cases "skip_country a c st")
    case True
    with p have "w1 = w" by (simp add: process_country_def skip_country_def)
    with n1 show ?thesis by simp
  next
    case False
    with n1(2) show ?thesis by (auto simp: skip_country_def list_all_iff)
  qed
  show ?case
  proof (cases r1)
    case (Inl e)
    with p Cons.prems have "w' = w1" by auto
    with n1 n1_ok show ?thesis by auto
  next
    case (Inr st1)
    with p Cons.prems have l: "run_loop en a cs st1 w1 = (r, w')" by simp
    from Cons.IH[OF l] obtain n2 where n2: "trace w' = trace w1 @ n2"
      "\<forall>e\<in>set n2. \<exists>c\<in>set cs. country_event a c e
                 \<and> (\<not> country_given a \<longrightarrow> fst c \<notin> fst ` set (entries (metadata st1)))" by blast
    have "entries (metadata st1) = entries (metadata st)
        \<or> (\<exists>x. entries (metadata st1) = AList.update (fst c) x (entries (metadata st)))"
      using process_country_cases[OF p] Inr by auto
    then have "fst ` set (entries (metadata st1)) = fst ` set (entries (metadata st))
        \<or> fst ` set (entries (metadata st1)) = insert (fst c) (fst ` set (entries (metadata st)))"
      using keys_update by metis
    then have mono: "fst ` set (entries (metadata st)) \<subseteq> fst ` set (entries (metadata st1))"
      by blast
    have "trace w' = trace w @ (n1 @ n2)" using n1 n2 by simp
    moreover have "\<forall>e\<in>set (n1 @ n2). \<exists>c'\<in>set (c # cs). country_event a c' e
                 \<and> (\<not> country_given a \<longrightarrow> fst c' \<notin> fst ` set (entries (metadata st)))"
    proof
      fix e
      assume "e \<in> set (n1 @ n2)"
      then consider "e \<in> set n1" | "e \<in> set n2" by auto
      then show "\<exists>c'\<in>set (c # cs). country_event a c' e
                 \<and> (\<not> country_given a \<longrightarrow> fst c' \<notin> fst ` set (entries (metadata st)))"
      proof cases
        case 1
        with n1_ok show ?thesis by simp
      next
        case 2
        with n2(2) obtain c' where c': "c' \<in> set cs" "country_event a c' e"
          "\<not> country_given a \<longrightarrow> fst c' \<notin> fst ` set (entries (metadata st1))" by blast
        from c'(3) mono have "\<not> country_given a \<longrightarrow> fst c' \<notin> fst ` set (entries (metadata st))"
          by blast
        with c'(1,2) show ?thesis by auto
      qed
    qed
    ultimately show ?thesis by blast
  qed
qed

lemma run_loop_dry_file:
  assumes "dry_run a" and "run_loop en a cs st w = (r, w')"
  shows "output_file w' = output_file w"
  using assms(2)
proof (induction cs arbitrary: st w)
  case Nil
  then show ?case by simp
next
  case (Cons c cs)
  obtain r1 w1 where p: "process_country en a c st w = (r1, w1)" by fastforce
  from process_country_cases[OF p] assms(1) have f: "output_file w1 = output_file w" by auto
  show ?case
  proof (cases r1)
    case (Inl e)
    with p Cons.prems f show ?thesis by auto
  next
    case (Inr st1)
    with p Cons.prems have "run_loop en a cs st1 w1 = (r, w')" by simp
    from Cons.IH[OF this] f show ?thesis by simp
  qed
qed

subsection \<open>The phases of \<^verbatim>\<open>main\<close>\<close>

lemma trace_print_all: "trace (print_all ls w) = trace w @ map Print ls"
  by (simp add: print_all_def)

lemma main_elims:
  assumes "main en a f = (out, w)"
  obtains
    (credential) "\<not> credential_set en" "\<not> dry_run a" "out = MissingCredential"
      "output_file w = f" "trace w = map Print missing_credential_lines"
  | (unknown) code where "credential_set en \<or> dry_run a" "select_countries a = Inl code"
      "out = UnknownCountry" "output_file w = f"
      "trace w = start_trace a @ map Print (unknown_country_lines code)"
  | (ran) cs st0 w2 r w3 where "credential_set en \<or> dry_run a" "select_countries a = Inr cs"
      "output_file w2 = f" "trace w2 = start_trace a @ [ClockRead (clock en (start_trace a))]"
      "metadata st0 = load_existing a w2 (initial_metadata (clock en (start_trace a)))"
      "run_loop en a cs st0 w2 = (r, w3)"
      "\<And>e. r = Inl e \<Longrightarrow> out = Raised e \<and> w = w3"
      "\<And>st. r = Inr st \<Longrightarrow> out = Done (fst (final_write en a st w3)) \<and> w = snd (final_write en a st w3)"
proof (cases "\<not> credential_set en \<and> \<not> dry_run a")
  case True
  with assms have "out = MissingCredential"
    "w = print_all missing_credential_lines \<lparr>output_file = f, trace = []\<rparr>"
    by (auto simp: main_def)
  with True show ?thesis by (intro credential) (auto simp: print_all_def)
next
  case ok: False
  define w1 where "w1 = (if \<not> dry_run a then log_event ClientCreated \<lparr>output_file = f, trace = []\<rparr>
                          else \<lparr>output_file = f, trace = []\<rparr>)"
  have w1: "output_file w1 = f" "trace w1 = start_trace a"
    by (auto simp: w1_def log_event_def start_trace_def)
  show ?thesis
  proof (cases "select_countries a")
    case (Inl code)
    with assms ok have "out = UnknownCountry" "w = print_all (unknown_country_lines code) w1"
      by (auto simp: main_def w1_def Let_def)
    with ok Inl w1 show ?thesis
      by (intro unknown[of code]) (auto simp: print_all_def)
  next
    case (Inr cs)
    define w2 where "w2 = snd (now en w1)"
    define st0 where "st0 = \<lparr>metadata = load_existing a w2 (initial_metadata (fst (now en w1))),
                              success = 0, failed = 0, skipped = 0\<rparr>"
    obtain r w3 where l: "run_loop en a cs st0 w2 = (r, w3)" by fastforce
    have w2: "output_file w2 = f" "trace w2 = start_trace a @ [ClockRead (clock en (start_trace a))]"
      "fst (now en w1) = clock en (start_trace a)"
      using w1 by (auto simp: w2_def now_def log_event_def)
    have m: "main en a f = (case run_loop en a cs st0 w2 of
                         (Inl e, w3) \<Rightarrow> (Raised e, w3)
                       | (Inr st, w3) \<Rightarrow>
                           (let (st1, w4) = final_write en a st w3
                            in (Done st1, w4)))"
      using ok Inr by (auto simp: main_def w1_def w2_def st0_def Let_def split: prod.splits)
    have e1: "out = Raised e \<and> w = w3" if "r = Inl e" for e
      using m l assms that by simp
    have e2: "out = Done (fst (final_write en a st w3)) \<and> w = snd (final_write en a st w3)"
      if "r = Inr st" for st
      using m l assms that by (simp add: Let_def split: prod.splits)
    have md: "metadata st0 = load_existing a w2 (initial_metadata (clock en (start_trace a)))"
      by (simp add: st0_def w2(3))
    from ok Inr w2(1,2) md l e1 e2 show ?thesis
      by (intro ran[of cs w2 st0 r w3]) auto
  qed
qed

lemma final_write_dry: "dry_run a \<Longrightarrow> final_write en a st w = (st, w)"
  by (simp add: final_write_def)

lemma final_write_wet:
  assumes "\<not> dry_run a"
  shows "fst (final_write en a st w)
           = st\<lparr>metadata := (metadata st)\<lparr>generated_at := clock en (trace w)\<rparr>\<rparr>"
    and "output_file (snd (final_write en a st w))
           = Some ((metadata st)\<lparr>generated_at := clock en (trace w)\<rparr>)"
    and "trace (snd (final_write en a st w))
           = trace w @ [ClockRead (clock en (trace w)),
                        Write ((metadata st)\<lparr>generated_at := clock en (trace w)\<rparr>)]"
  using assms
  by (simp_all add: final_write_def now_def write_document_def log_event_def Let_def)







subsection \<open>C8: a dry run never touches the language model\<close>

text \<open>
  Claim C8. In a run with the dry-run flag, no client for the language model is created
  and no completion request is sent, and the run does not stop at the credential check,
  whether the credential is set or not.
\<close>

theorem dry_run_never_uses_llm:
  assumes "dry_run a" and "main en a f = (out, w)"
  shows "out \<noteq> MissingCredential \<and> ClientCreated \<notin> set (trace w)
       \<and> (\<forall>n p. Completion n p \<notin> set (trace w))"
  using assms(2)
proof (cases rule: main_elims)
  case credential
  with assms(1) show ?thesis by simp
next
  case (unknown code)
  with assms(1) show ?thesis by (auto simp: start_trace_def)
next
  case (ran cs st0 w2 r w3)
  from run_loop_trace[OF ran(6)] obtain new where new: "trace w3 = trace w2 @ new"
    "\<forall>e\<in>set new. \<exists>c\<in>set cs. country_event a c e" by blast
  have clean: "ClientCreated \<notin> set new" "Completion n p \<notin> set new" for n p
    using new(2) assms(1) by (auto simp: country_event_def)
  have w: "w = w3" and out: "out \<noteq> MissingCredential"
    using ran(7,8) assms(1) by (cases r; auto simp: final_write_def)+
  show ?thesis
    using w out new(1) ran(4) clean assms(1) by (auto simp: start_trace_def)
qed

theorem dry_run_never_uses_llm_witness:
  "dry_run (dry_only ''DE'') \<and> \<not> credential_set no_key_env
   \<and> fst (main no_key_env (dry_only ''DE'') None) \<noteq> MissingCredential
   \<and> ClientCreated \<notin> set (trace (snd (main no_key_env (dry_only ''DE'') None)))
   \<and> Completion ''Germany'' (build_prompt ''Germany'' ''{{Infobox}}'')
        \<notin> set (trace (snd (main no_key_env (dry_only ''DE'') None)))"
proof -
  have d: "dry_run (dry_only ''DE'')" by (simp add: dry_only_def)
  have k: "\<not> credential_set no_key_env"
    by (simp add: credential_set_def no_key_env_def)
  have m: "main no_key_env (dry_only ''DE'') None
             = (fst (main no_key_env (dry_only ''DE'') None),
                snd (main no_key_env (dry_only ''DE'') None))"
    by simp
  from dry_run_never_uses_llm [OF d m] d k show ?thesis by blast
qed

subsection \<open>C4: the write after the loop\<close>

text \<open>
  Claim C4, as far as the code goes. A run without the dry-run flag that reaches the end
  of the loop reads the clock and writes the document once more: these are its last two
  events, the document written carries that clock reading as generation timestamp, and
  it is the content of the output file. A run with the dry-run flag writes nothing at
  all: the output file is as it was before the run.
\<close>

theorem final_write_unless_dry_run:
  "(\<not> dry_run a \<and> main en a f = (Done st, w) \<longrightarrow>
      (\<exists>before. trace w = before @ [ClockRead (clock en before), Write (metadata st)]
         \<and> generated_at (metadata st) = clock en before
         \<and> output_file w = Some (metadata st)))
   \<and> (dry_run a \<and> main en a f = (out, w') \<longrightarrow>
        output_file w' = f \<and> \<not> list_ex is_write (trace w'))"
proof (intro conjI impI)
  assume h: "\<not> dry_run a \<and> main en a f = (Done st, w)"
  then have m: "main en a f = (Done st, w)" and nd: "\<not> dry_run a" by auto
  from m show "\<exists>before. trace w = before @ [ClockRead (clock en before), Write (metadata st)]
         \<and> generated_at (metadata st) = clock en before
         \<and> output_file w = Some (metadata st)"
  proof (cases rule: main_elims)
    case (ran cs st0 w2 r w3)
    from ran(7) obtain st' where r: "r = Inr st'" by (cases r) auto
    from ran(8)[OF r] final_write_wet[OF nd, of en st' w3]
    have "st = st'\<lparr>metadata := (metadata st')\<lparr>generated_at := clock en (trace w3)\<rparr>\<rparr>"
      "output_file w = Some ((metadata st')\<lparr>generated_at := clock en (trace w3)\<rparr>)"
      "trace w = trace w3 @ [ClockRead (clock en (trace w3)),
                          Write ((metadata st')\<lparr>generated_at := clock en (trace w3)\<rparr>)]"
      by auto
    then show ?thesis by auto
  qed auto
next
  assume h: "dry_run a \<and> main en a f = (out, w')"
  then have m: "main en a f = (out, w')" and d: "dry_run a" by auto
  from m show "output_file w' = f"
  proof (cases rule: main_elims)
    case (ran cs st0 w2 r w3)
    from run_loop_dry_file[OF d ran(6)] ran(3) have "output_file w3 = f" by simp
    moreover have "w' = w3" using ran(7,8) d by (cases r) (auto simp: final_write_dry)
    ultimately show ?thesis by simp
  qed auto
  from m show "\<not> list_ex is_write (trace w')"
  proof (cases rule: main_elims)
    case credential
    with d show ?thesis by simp
  next
    case (unknown code)
    with d show ?thesis by (auto simp: start_trace_def list_ex_iff is_write_def)
  next
    case (ran cs st0 w2 r w3)
    from run_loop_trace[OF ran(6)] obtain new where new: "trace w3 = trace w2 @ new"
      "\<forall>e\<in>set new. \<exists>c\<in>set cs. country_event a c e" by blast
    have "\<not> is_write e" if "e \<in> set new" for e
      using new(2) d that by (cases e) (auto simp: country_event_def is_write_def)
    moreover have "w' = w3" using ran(7,8) d by (cases r) (auto simp: final_write_dry)
    ultimately show ?thesis
      using new(1) ran(4) d by (auto simp: start_trace_def list_ex_iff is_write_def)
  qed
qed

theorem final_write_unless_dry_run_witness:
  "\<not> dry_run (only ''DE'')
   \<and> fst (main (example_env good_server LLMError) (only ''DE'') None)
       = Done (fresh_state\<lparr>failed := 1\<rparr>)
   \<and> (\<exists>before. trace (snd (main (example_env good_server LLMError) (only ''DE'') None))
          = before @ [ClockRead (clock (example_env good_server LLMError) before),
                      Write (metadata fresh_state)])
   \<and> output_file (snd (main (example_env good_server LLMError) (only ''DE'') None))
       = Some (metadata fresh_state)
   \<and> dry_run (dry_only ''DE'')
   \<and> output_file (snd (main (example_env good_server LLMError) (dry_only ''DE'')
        (Some collected))) = Some collected
   \<and> \<not> list_ex is_write
        (trace (snd (main (example_env good_server LLMError) (dry_only ''DE'') (Some collected))))"
proof -
  let ?E = "example_env good_server LLMError"
  have nd: "\<not> dry_run (only ''DE'')" by (simp add: only_def)
  have d: "dry_run (dry_only ''DE'')" by (simp add: dry_only_def)
  have o: "fst (main ?E (only ''DE'') None) = Done (fresh_state\<lparr>failed := 1\<rparr>)"
    by (simp add: run_defs fresh_state_def)
  then have m: "main ?E (only ''DE'') None
                  = (Done (fresh_state\<lparr>failed := 1\<rparr>), snd (main ?E (only ''DE'') None))"
    by (metis prod.collapse)
  have m2: "main ?E (dry_only ''DE'') (Some collected)
              = (fst (main ?E (dry_only ''DE'') (Some collected)),
                 snd (main ?E (dry_only ''DE'') (Some collected)))"
    by simp
  have md: "metadata (fresh_state\<lparr>failed := 1\<rparr>) = metadata fresh_state" by simp
  from final_write_unless_dry_run [where a = "only ''DE''" and en = ?E and f = None
      and st = "fresh_state\<lparr>failed := 1\<rparr>" and w = "snd (main ?E (only ''DE'') None)"] nd m md
  have a: "(\<exists>before. trace (snd (main ?E (only ''DE'') None))
          = before @ [ClockRead (clock ?E before), Write (metadata fresh_state)])
     \<and> output_file (snd (main ?E (only ''DE'') None)) = Some (metadata fresh_state)"
    by auto
  from final_write_unless_dry_run [where a = "dry_only ''DE''" and en = ?E
      and f = "Some collected" and out = "fst (main ?E (dry_only ''DE'') (Some collected))"
      and w' = "snd (main ?E (dry_only ''DE'') (Some collected))"] d m2
  have b: "output_file (snd (main ?E (dry_only ''DE'') (Some collected))) = Some collected
     \<and> \<not> list_ex is_write (trace (snd (main ?E (dry_only ''DE'') (Some collected))))"
    by blast
  from nd o a d b show ?thesis by blast
qed

text \<open>
  Claim C4 as stated fails in dry-run mode: the final write is guarded by the flag. A dry
  run for one country reaches the end of the loop and its trace holds no write.
\<close>

theorem dry_run_no_final_write_counterexample:
  "main (example_env good_server LLMError) (dry_only ''DE'') None
     = (Done \<lparr>metadata = initial_metadata ''2026-01-01T00:00:00+00:00'',
              success = 1, failed = 0, skipped = 0\<rparr>,
        \<lparr>output_file = None,
         trace = [ClockRead ''2026-01-01T00:00:00+00:00'', Sleep 1,
                  Get ''Vehicle_registration_plates_of_Germany'']\<rparr>)"
  by (simp add: run_defs)

subsection \<open>C9: an unknown country code\<close>

text \<open>
  Claim C9, as far as the code goes. Let the run name a single country by a non-empty
  code that, in upper case, is not in the table, and let it pass the credential check
  (the credential is set, or the run is a dry run). Then the run stops with the message
  for an unknown code followed by one line for every country of the table, in the order
  of the codes, and sends no request to the wiki or to the language model.
\<close>

theorem unknown_country_aborts:
  assumes "country a = Some c" and "c \<noteq> []" and "map_of COUNTRIES (upper c) = None"
    and "credential_set en \<or> dry_run a"
  shows "main en a f =
           (UnknownCountry,
            \<lparr>output_file = f,
             trace = start_trace a
               @ map Print ([''Unknown country code: '' @ upper c, ''Available codes:'']
                            @ map table_line (sort_key fst COUNTRIES))\<rparr>)
       \<and> \<not> list_ex is_network (trace (snd (main en a f)))
       \<and> sorted (map fst (sort_key fst COUNTRIES))
       \<and> set (sort_key fst COUNTRIES) = set COUNTRIES
       \<and> length (sort_key fst COUNTRIES) = length COUNTRIES"
proof -
  have s: "select_countries a = Inl (upper c)"
    using assms(1-3) by (simp add: select_countries_def)
  have m: "main en a f =
           (UnknownCountry,
            \<lparr>output_file = f,
             trace = start_trace a
               @ map Print ([''Unknown country code: '' @ upper c, ''Available codes:'']
                            @ map table_line (sort_key fst COUNTRIES))\<rparr>)"
    using assms(4) s
    by (auto simp: main_def Let_def print_all_def log_event_def start_trace_def
        unknown_country_lines_def)
  have "\<not> list_ex is_network (trace (snd (main en a f)))"
    unfolding m by (auto simp: start_trace_def list_ex_iff is_network_def)
  then show ?thesis using m by simp
qed

theorem unknown_country_aborts_witness:
  "country (only ''zz'') = Some ''zz'' \<and> ''zz'' \<noteq> []
   \<and> map_of COUNTRIES (upper ''zz'') = None
   \<and> credential_set (example_env good_server good_reply)
   \<and> fst (main (example_env good_server good_reply) (only ''zz'') None) = UnknownCountry
   \<and> \<not> list_ex is_network
        (trace (snd (main (example_env good_server good_reply) (only ''zz'') None)))
   \<and> sorted (map fst (sort_key fst COUNTRIES))"
proof -
  have h1: "country (only ''zz'') = Some ''zz''" by (simp add: only_def)
  have h2: "''zz'' \<noteq> []" by simp
  have u: "upper ''zz'' = ''ZZ''" by code_simp
  have h3: "map_of COUNTRIES (upper ''zz'') = None"
    unfolding u by (simp add: COUNTRIES_def)
  have h4: "credential_set (example_env good_server good_reply) \<or> dry_run (only ''zz'')"
    by (simp add: credential_set_def example_env_def)
  have h5: "credential_set (example_env good_server good_reply)"
    by (simp add: credential_set_def example_env_def)
  note t = unknown_country_aborts [OF h1 h2 h3 h4, of None]
  from t [THEN conjunct1]
  have a: "fst (main (example_env good_server good_reply) (only ''zz'') None) = UnknownCountry"
    by simp
  from t have b: "\<not> list_ex is_network
        (trace (snd (main (example_env good_server good_reply) (only ''zz'') None)))"
    by blast
  from t have c: "sorted (map fst (sort_key fst COUNTRIES))"
    by blast
  from h1 h2 h3 h5 a b c show ?thesis by blast
qed

text \<open>
  Claim C9 as stated fails when the credential is missing and the run is not a dry run:
  the credential check comes first, and the run stops there without printing the table.
\<close>

theorem unknown_country_without_credential_counterexample:
  "map_of COUNTRIES (upper ''ZZ'') = None
   \<and> main no_key_env (only ''ZZ'') None
     = (MissingCredential,
        \<lparr>output_file = None,
         trace = [Print ''Error: OPENAI_API_KEY environment variable is required'',
                  Print ''Set it with: export OPENAI_API_KEY=sk-...'']\<rparr>)"
  by (simp add: run_defs no_key_env_def print_all_def missing_credential_lines_def)

subsection \<open>C3: collected entries are kept and their countries skipped\<close>



subsection \<open>C1: a run for one country\<close>

text \<open>
  Claim C1 against the code. The stored document holds entries for France and for
  Germany. A run for Germany alone, with a server and a model that answer well, processes
  Germany again, as the claim says; but the document it writes holds the new entry for
  Germany and nothing else: the entry for France is gone. Entries of the output file are
  never loaded in a run for one country, and every write replaces the whole file.
\<close>

theorem single_country_run_drops_other_entries:
  "map_of (entries collected) ''FR'' = Some (JObj [(''format_pattern'', JStr ''LL-NNN-LL'')])
   \<and> output_file (snd (main (example_env good_server good_reply) (only ''DE'') (Some collected)))
     = Some \<lparr>generated_at = ''2026-01-01T00:00:00+00:00'',
             source = ''Wikipedia (per-country vehicle registration plate articles)'',
             extraction_model = ''gpt-4o-mini'',
             entries =
               [(''DE'', JObj [(''format_pattern'', JStr ''LL NN''),
                               (''country_name'', JStr ''Germany''),
                               (''iso'', JStr ''DE''),
                               (''wikipedia_article'',
                                  JStr ''Vehicle_registration_plates_of_Germany''),
                               (''extracted_at'', JStr ''2026-01-01T00:00:00+00:00'')])]\<rparr>"
  by (simp add: run_defs collected_def good_reply_def parse_reply_def strip_fences_def
      strip_def lstrip_def rstrip_def is_space_def fence_def store_result_def stamp_result_def)

end
